theory Spec2Isabelle
  imports Complex_Main
begin

section \<open>Data model of \<open>src/app/printer.ts\<close>\<close>

text \<open>
  The reporter works on the runner's task objects. They are JavaScript objects that the
  runner mutates after the reporter has seen them (a result is attached when a task
  finishes) and that point at each other (\<open>test.suite\<close>, \<open>test.file\<close>), so they live in
  an explicit store: a reference is an address, the store maps every address to the
  current fields of the object. Only the ownership of children (\<open>tasks\<close>) is a tree, and
  it is modelled as one, so that the recursive walks of the source are structural.
\<close>

type_synonym ref = nat

text \<open>\<open>ErrorWithDiff\<close>: an \<open>Error\<close>, whose \<open>message\<close> is a string and whose \<open>stack\<close> is optional.\<close>

record error_with_diff =
  message :: string
  stack :: "string option"

text \<open>\<open>TaskResult\<close>: \<open>state\<close> is a string tag, \<open>duration\<close> and \<open>errors\<close> are optional.\<close>

record task_result =
  state :: string
  duration :: "real option"
  errors :: "error_with_diff list option"

text \<open>
  The fields of a task object that the printer reads. \<open>suite\<close> is read on tests only,
  where the type \<open>Test\<close> makes it mandatory; \<open>file\<close> is optional on every task.
\<close>

record task_obj =
  task_id :: string
  name :: string
  task_type :: string
  mode :: string
  result :: "task_result option"
  suite :: ref
  file_of :: "ref option"

type_synonym store = "ref \<Rightarrow> task_obj"

text \<open>A task together with the tasks it owns: the object's address and its \<open>tasks\<close> array.\<close>

datatype task = Task (ref_of: ref) (tasks: "task list")

text \<open>\<open>UserConsoleLog\<close>: the channel (\<open>type\<close>) and the text.\<close>

record user_console_log =
  log_type :: string
  content :: string

text \<open>
  Modelled from the spec: the class \<open>MissingResultError\<close> (\<open>./error/missing-result.error\<close>)
  is not among the sources; it is the synthetic error saying that no result was recorded
  for the test it is built from. What \<open>getTestErrors\<close> returns is a list of errors taken
  from a result (\<open>Reported\<close>) or this error.
\<close>

datatype test_error = Reported error_with_diff | MissingResultError ref

text \<open>
  The message builders \<open>SuitMessage\<close>, \<open>TestMessage\<close> and the sanitizer \<open>escape\<close> are
  imported by the printer and are not among the sources. They are taken as a parameter:
  one function per method, from the constructor's arguments and the method's arguments
  to the text of the line. A \<open>TestMessage\<close> is built from the test object, so its
  methods are functions of the test's reference.
\<close>

record formatter =
  escape :: "string \<Rightarrow> string"
  suite_started :: "string \<Rightarrow> string \<Rightarrow> string"
  suite_finished :: "string \<Rightarrow> string \<Rightarrow> string"
  test_ignored :: "ref \<Rightarrow> string"
  test_started :: "ref \<Rightarrow> string"
  test_log :: "ref \<Rightarrow> string \<Rightarrow> string \<Rightarrow> string"
  test_fail :: "ref \<Rightarrow> test_error \<Rightarrow> string"
  test_finished :: "ref \<Rightarrow> real \<Rightarrow> string"

text \<open>
  \<open>PotentialMessage = string | (() => string | string[])\<close>. The only producer the
  printer builds is the closure of \<open>handleTest\<close>; it captures the test object and the
  printer, so it is represented by the test's reference and run by \<open>handleTest_closure\<close>.
\<close>

datatype potential_message = Literal string | Deferred ref

text \<open>
  The printer: its two maps, and the lines handed to \<open>logger.console.info\<close> so far,
  oldest first.
\<close>

record printer =
  fileMessageMap :: "string \<rightharpoonup> potential_message list"
  testConsoleMap :: "string \<rightharpoonup> user_console_log list"
  console :: "string list"

text \<open>A \<open>TypeError\<close> is what reading a property of \<open>undefined\<close> throws.\<close>

datatype js_error = TypeError

section \<open>The operations\<close>

text \<open>\<open>getTestErrors\<close> (lines 136-140): a chain of \<open>??\<close>, which passes over \<open>null\<close> and
  \<open>undefined\<close> only; \<open>?.\<close> yields \<open>undefined\<close> on a missing result or file.\<close>

definition result_errors :: "task_result option \<Rightarrow> error_with_diff list option" where
  "result_errors r = (case r of None \<Rightarrow> None | Some res \<Rightarrow> errors res)"

definition getTestErrors :: "store \<Rightarrow> ref \<Rightarrow> test_error list" where
  "getTestErrors st t =
     (case result_errors (result (st t)) of
        Some es \<Rightarrow> map Reported es
      | None \<Rightarrow>
     (case result_errors (result (st (suite (st t)))) of
        Some es \<Rightarrow> map Reported es
      | None \<Rightarrow>
     (case (case file_of (st t) of None \<Rightarrow> None | Some f \<Rightarrow> result_errors (result (st f))) of
        Some es \<Rightarrow> map Reported es
      | None \<Rightarrow> [MissingResultError t])))"

text \<open>\<open>addTestConsoleLog\<close> (lines 35-42).\<close>

definition addTestConsoleLog :: "string \<Rightarrow> user_console_log \<Rightarrow> printer \<Rightarrow> printer" where
  "addTestConsoleLog i lg p =
     (case testConsoleMap p i of
        Some messages \<Rightarrow> p\<lparr>testConsoleMap := (testConsoleMap p)(i \<mapsto> messages @ [lg])\<rparr>
      | None \<Rightarrow> p\<lparr>testConsoleMap := (testConsoleMap p)(i \<mapsto> [lg])\<rparr>)"

text \<open>
  The closure returned by \<open>handleTest\<close> (lines 79-92), run against the store and the
  printer of the moment it is called. \<open>filter(Boolean)\<close> drops the empty string, the
  only falsy string.
\<close>

definition test_failed :: "store \<Rightarrow> ref \<Rightarrow> bool" where
  "test_failed st t =
     (case result (st t) of None \<Rightarrow> True | Some res \<Rightarrow> state res = ''fail'')"

definition result_duration :: "store \<Rightarrow> ref \<Rightarrow> real" where
  "result_duration st t =
     (case result (st t) of
        None \<Rightarrow> 0
      | Some res \<Rightarrow> (case duration res of None \<Rightarrow> 0 | Some d \<Rightarrow> d))"

definition handleTest_closure ::
  "formatter \<Rightarrow> store \<Rightarrow> printer \<Rightarrow> ref \<Rightarrow> string list" where
  "handleTest_closure F st p t =
     (let fail = test_failed st t;
          logs = (case testConsoleMap p (task_id (st t)) of None \<Rightarrow> [] | Some l \<Rightarrow> l);
          logsMessages = map (\<lambda>lg. test_log F t (log_type lg) (content lg)) logs;
          filedMessages = (if fail then map (test_fail F t) (getTestErrors st t) else [])
      in filter (\<lambda>m. m \<noteq> [])
           ([test_started F t] @ logsMessages @ filedMessages
            @ [test_finished F t (result_duration st t)]))"

text \<open>\<open>handleTest\<close> (lines 74-93): the mode is read when the template is built.\<close>

definition handleTest :: "formatter \<Rightarrow> store \<Rightarrow> ref \<Rightarrow> potential_message" where
  "handleTest F st t =
     (if mode (st t) = ''skip'' then Literal (test_ignored F t) else Deferred t)"

text \<open>
  \<open>handleTask\<close> and \<open>handleSuite\<close> (lines 54-72). \<open>flatMap\<close> over the children is the
  function on the list; a single message returned by \<open>handleTest\<close> is one element for
  \<open>flatMap\<close>. \<open>suite.file!.id\<close> throws when the suite has no file.
\<close>

fun handleTask :: "formatter \<Rightarrow> store \<Rightarrow> task \<Rightarrow> js_error + potential_message list"
and handleTasks :: "formatter \<Rightarrow> store \<Rightarrow> task list \<Rightarrow> js_error + potential_message list"
where
  "handleTask F st (Task a ts) =
     (if task_type (st a) = ''test'' then Inr [handleTest F st a]
      else if task_type (st a) = ''suite'' \<and> mode (st a) = ''run'' then
        (case file_of (st a) of
           None \<Rightarrow> Inl TypeError
         | Some f \<Rightarrow>
             (case handleTasks F st ts of
                Inl e \<Rightarrow> Inl e
              | Inr ms \<Rightarrow>
                  Inr ([Literal (suite_started F (task_id (st f)) (escape F (name (st a))))]
                       @ ms
                       @ [Literal (suite_finished F (task_id (st f)) (escape F (name (st a))))])))
      else Inr [])"
| "handleTasks F st [] = Inr []"
| "handleTasks F st (t # ts) =
     (case handleTask F st t of
        Inl e \<Rightarrow> Inl e
      | Inr ms \<Rightarrow> (case handleTasks F st ts of Inl e \<Rightarrow> Inl e | Inr ms' \<Rightarrow> Inr (ms @ ms')))"

text \<open>\<open>addFile\<close> (lines 25-33): a second registration of the same id overwrites.\<close>

definition addFile :: "formatter \<Rightarrow> store \<Rightarrow> task \<Rightarrow> printer \<Rightarrow> js_error + printer" where
  "addFile F st fl p =
     (case handleTasks F st (tasks fl) of
        Inl e \<Rightarrow> Inl e
      | Inr ms \<Rightarrow>
          Inr (p\<lparr>fileMessageMap := (fileMessageMap p)(task_id (st (ref_of fl)) \<mapsto>
                 [Literal (suite_started F (task_id (st (ref_of fl)))
                                          (escape F (name (st (ref_of fl)))))]
                 @ ms
                 @ [Literal (suite_finished F (task_id (st (ref_of fl)))
                                             (escape F (name (st (ref_of fl)))))])\<rparr>))"

text \<open>\<open>handeUpdate\<close> (lines 44-52). A literal passes through, a producer is called.\<close>

fun run_message :: "formatter \<Rightarrow> store \<Rightarrow> printer \<Rightarrow> potential_message \<Rightarrow> string list" where
  "run_message F st p (Literal s) = [s]"
| "run_message F st p (Deferred t) = handleTest_closure F st p t"

definition handeUpdate ::
  "formatter \<Rightarrow> store \<Rightarrow> string \<times> task_result option \<Rightarrow> printer \<Rightarrow> printer" where
  "handeUpdate F st pack p =
     (case fileMessageMap p (fst pack) of
        None \<Rightarrow> p
      | Some messages \<Rightarrow>
          (case snd pack of
             None \<Rightarrow> p
           | Some res \<Rightarrow>
               if state res \<noteq> ''run'' then
                 p\<lparr>console := console p @ concat (map (run_message F st p) messages),
                   fileMessageMap := (fileMessageMap p)(fst pack := None)\<rparr>
               else p))"

text \<open>
  \<open>toArray\<close> (lines 95-105): \<open>Nullable<Arrayable<T>>\<close> is nothing, one value or an array.
\<close>

datatype 'a arrayable = Single 'a | Many "'a list"

definition toArray :: "'a arrayable option \<Rightarrow> 'a list" where
  "toArray array =
     (case array of None \<Rightarrow> [] | Some (Many xs) \<Rightarrow> xs | Some (Single x) \<Rightarrow> [x])"

text \<open>
  \<open>getSuites\<close> (lines 107-109). \<open>getSuites_of\<close> is the callback of \<open>flatMap\<close>,
  \<open>getSuites_list\<close> is the recursive call \<open>getSuites(s.tasks)\<close> on an array.
\<close>

fun getSuites_of :: "store \<Rightarrow> task \<Rightarrow> ref list"
and getSuites_list :: "store \<Rightarrow> task list \<Rightarrow> ref list"
where
  "getSuites_of st (Task a ts) =
     (if task_type (st a) = ''suite'' then a # getSuites_list st ts else [])"
| "getSuites_list st [] = []"
| "getSuites_list st (s # ss) = getSuites_of st s @ getSuites_list st ss"

definition getSuites :: "store \<Rightarrow> task arrayable option \<Rightarrow> ref list" where
  "getSuites st suites = concat (map (getSuites_of st) (toArray suites))"

text \<open>\<open>isAtomTest\<close> (lines 111-113).\<close>

definition isAtomTest :: "store \<Rightarrow> ref \<Rightarrow> bool" where
  "isAtomTest st s = (task_type (st s) = ''test'' \<or> task_type (st s) = ''custom'')"

text \<open>
  \<open>getTests\<close> (lines 115-134). \<open>getTests_of\<close> is the body of the outer loop for one
  element, \<open>getTests_tasks\<close> the inner loop over \<open>s.tasks\<close>; the recursive call
  \<open>getTests(task)\<close> receives one task, which \<open>toArray\<close> wraps into a one-element array.
\<close>

fun getTests_of :: "store \<Rightarrow> task \<Rightarrow> ref list"
and getTests_tasks :: "store \<Rightarrow> task list \<Rightarrow> ref list"
where
  "getTests_of st (Task a ts) = (if isAtomTest st a then [a] else getTests_tasks st ts)"
| "getTests_tasks st [] = []"
| "getTests_tasks st (t # ts) =
     (if isAtomTest st (ref_of t) then [ref_of t] else getTests_of st t)
     @ getTests_tasks st ts"

definition getTests :: "store \<Rightarrow> task arrayable option \<Rightarrow> ref list" where
  "getTests st files = concat (map (getTests_of st) (toArray files))"

text \<open>
  \<open>writeSummary\<close> (lines 142-167): the summary handed to \<open>this.printer.writeSummary\<close>.
  The variable \<open>files\<close> is not declared in the source and is taken as a parameter.
  An array is truthy also when it is empty, so \<open>i.result?.errors\<close> keeps every suite
  whose result has an \<open>errors\<close> array, and \<open>errors || []\<close> is that array; \<open>error.stack\<close>
  is \<open>undefined\<close> for an error without a stack.
\<close>

record suite_error =
  se_file :: string
  se_error :: "string option"

record test_run_summary =
  failedSuitesCount :: nat
  totalSuitesCount :: nat
  failedTestsCount :: nat
  totalTestsCount :: nat
  suiteErrors :: "suite_error list"

definition failedSuites :: "store \<Rightarrow> task arrayable option \<Rightarrow> ref list" where
  "failedSuites st files =
     filter (\<lambda>i. result_errors (result (st i)) \<noteq> None) (getSuites st files)"

text \<open>The filter \<open>i.result?.state === 'fail'\<close>.\<close>

definition state_fail :: "store \<Rightarrow> ref \<Rightarrow> bool" where
  "state_fail st i = (case result (st i) of None \<Rightarrow> False | Some res \<Rightarrow> state res = ''fail'')"

definition failedTests :: "store \<Rightarrow> task arrayable option \<Rightarrow> ref list" where
  "failedTests st files = filter (state_fail st) (getTests st files)"

definition writeSummary :: "store \<Rightarrow> task arrayable option \<Rightarrow> test_run_summary" where
  "writeSummary st files =
     \<lparr>failedSuitesCount = length (failedSuites st files),
      totalSuitesCount = length (getSuites st files),
      failedTestsCount = length (failedTests st files),
      totalTestsCount = length (getTests st files),
      suiteErrors =
        (if length (failedSuites st files) > 0 then
           concat (map (\<lambda>s. map (\<lambda>e. \<lparr>se_file = name (st s), se_error = stack e\<rparr>)
                               (case result_errors (result (st s)) of
                                  None \<Rightarrow> [] | Some es \<Rightarrow> es))
                       (failedSuites st files))
         else [])\<rparr>"

section \<open>The runner around the printer\<close>

text \<open>
  What reaches the printer between the registration of a file and its flush. The
  runner attaches a result to a task object (\<open>SetResult\<close>, a write to the store that
  the printer does not see), reports a state change to \<open>handeUpdate\<close> (\<open>TaskUpdate\<close>),
  and forwards console output to \<open>addTestConsoleLog\<close> (\<open>ConsoleLog\<close>). The three kinds
  of event come in any order and any number; the runner writes results only, the other
  fields of a task object stay as they were at registration.
\<close>

datatype event =
    SetResult ref "task_result option"
  | TaskUpdate string "task_result option"
  | ConsoleLog string user_console_log

fun step :: "formatter \<Rightarrow> event \<Rightarrow> store \<times> printer \<Rightarrow> store \<times> printer" where
  "step F (SetResult a r) (st, p) = (st(a := (st a)\<lparr>result := r\<rparr>), p)"
| "step F (TaskUpdate i r) (st, p) = (st, handeUpdate F st (i, r) p)"
| "step F (ConsoleLog i lg) (st, p) = (st, addTestConsoleLog i lg p)"

fun run :: "formatter \<Rightarrow> event list \<Rightarrow> store \<times> printer \<Rightarrow> store \<times> printer" where
  "run F [] s = s"
| "run F (e # es) s = run F es (step F e s)"

fun is_log :: "event \<Rightarrow> bool" where
  "is_log (ConsoleLog i lg) = True"
| "is_log e = False"

text \<open>The terminal notification of the file \<open>f\<close>: a state change for \<open>f\<close> whose result
  is present and not in state \<open>run\<close>.\<close>

fun terminal_for :: "string \<Rightarrow> event \<Rightarrow> bool" where
  "terminal_for f (TaskUpdate i (Some res)) = (i = f \<and> state res \<noteq> ''run'')"
| "terminal_for f e = False"

fun quiet_for :: "string \<Rightarrow> event list \<Rightarrow> bool" where
  "quiet_for f [] = True"
| "quiet_for f (e # es) = (\<not> terminal_for f e \<and> quiet_for f es)"

text \<open>The effect of a run on the store alone, and on the console-log map alone.\<close>

fun store_after :: "event list \<Rightarrow> store \<Rightarrow> store" where
  "store_after [] st = st"
| "store_after (SetResult a r # es) st = store_after es (st(a := (st a)\<lparr>result := r\<rparr>))"
| "store_after (e # es) st = store_after es st"

fun logs_after ::
  "event list \<Rightarrow> (string \<rightharpoonup> user_console_log list) \<Rightarrow> (string \<rightharpoonup> user_console_log list)" where
  "logs_after [] m = m"
| "logs_after (ConsoleLog i lg # es) m =
     logs_after es (m(i \<mapsto> (case m i of None \<Rightarrow> [lg] | Some l \<Rightarrow> l @ [lg])))"
| "logs_after (e # es) m = logs_after es m"

text \<open>The lines that the terminal notification \<open>(f, res)\<close> hands to the logger, in the
  state \<open>s\<close> of the store and the printer that a run has reached.\<close>

definition flush_lines ::
  "formatter \<Rightarrow> string \<Rightarrow> task_result \<Rightarrow> store \<times> printer \<Rightarrow> string list" where
  "flush_lines F f res s =
     drop (length (console (snd s))) (console (handeUpdate F (fst s) (f, Some res) (snd s)))"

text \<open>Two stores that differ in the results of their objects only.\<close>

definition same_static :: "store \<Rightarrow> store \<Rightarrow> bool" where
  "same_static st st' =
     (\<forall>a. task_id (st' a) = task_id (st a) \<and> name (st' a) = name (st a)
          \<and> task_type (st' a) = task_type (st a) \<and> mode (st' a) = mode (st a)
          \<and> suite (st' a) = suite (st a) \<and> file_of (st' a) = file_of (st a))"

section \<open>The properties, in the words of the specification\<close>

text \<open>
  The lines of a file in pre-order, rendered directly from the tree, the store and the
  console logs of the moment of the flush: a test gives its lines, a suite in run mode
  gives its started line, its children in declared order and its finished line.
\<close>

definition test_lines :: "formatter \<Rightarrow> store \<Rightarrow> printer \<Rightarrow> ref \<Rightarrow> string list" where
  "test_lines F st p t =
     (if mode (st t) = ''skip'' then [test_ignored F t] else handleTest_closure F st p t)"

fun preorder_task :: "formatter \<Rightarrow> store \<Rightarrow> printer \<Rightarrow> task \<Rightarrow> string list"
and preorder_tasks :: "formatter \<Rightarrow> store \<Rightarrow> printer \<Rightarrow> task list \<Rightarrow> string list"
where
  "preorder_task F st p (Task a ts) =
     (if task_type (st a) = ''test'' then test_lines F st p a
      else if task_type (st a) = ''suite'' \<and> mode (st a) = ''run'' then
        (case file_of (st a) of
           None \<Rightarrow> []
         | Some f \<Rightarrow>
             [suite_started F (task_id (st f)) (escape F (name (st a)))]
             @ preorder_tasks F st p ts
             @ [suite_finished F (task_id (st f)) (escape F (name (st a)))])
      else [])"
| "preorder_tasks F st p [] = []"
| "preorder_tasks F st p (t # ts) = preorder_task F st p t @ preorder_tasks F st p ts"

definition preorder_file :: "formatter \<Rightarrow> store \<Rightarrow> printer \<Rightarrow> task \<Rightarrow> string list" where
  "preorder_file F st p fl =
     [suite_started F (task_id (st (ref_of fl))) (escape F (name (st (ref_of fl))))]
     @ preorder_tasks F st p (tasks fl)
     @ [suite_finished F (task_id (st (ref_of fl))) (escape F (name (st (ref_of fl))))]"

text \<open>
  The outcome of a test as the specification words it: skip if the run mode is skip,
  else fail if there is no result or its state is fail, else pass.
\<close>

datatype outcome = Skip | Fail | Pass

definition classify :: "string \<Rightarrow> task_result option \<Rightarrow> outcome" where
  "classify m r =
     (if m = ''skip'' then Skip
      else (case r of
              None \<Rightarrow> Fail
            | Some res \<Rightarrow> if state res = ''fail'' then Fail else Pass))"

text \<open>The console logs buffered for an id, none when the id has no entry.\<close>

definition logs_of :: "printer \<Rightarrow> string \<Rightarrow> user_console_log list" where
  "logs_of p i = (case testConsoleMap p i of None \<Rightarrow> [] | Some l \<Rightarrow> l)"

text \<open>Every task of a tree, parents before children.\<close>

fun all_tasks :: "task \<Rightarrow> ref list"
and all_tasks_list :: "task list \<Rightarrow> ref list"
where
  "all_tasks (Task a ts) = a # all_tasks_list ts"
| "all_tasks_list [] = []"
| "all_tasks_list (t # ts) = all_tasks t @ all_tasks_list ts"

text \<open>A result that carries at least one error.\<close>

definition carries_error :: "store \<Rightarrow> ref \<Rightarrow> bool" where
  "carries_error st a =
     (case result_errors (result (st a)) of None \<Rightarrow> False | Some es \<Rightarrow> es \<noteq> [])"

text \<open>
  The shape the type \<open>Task = Suite | Test | Custom\<close> gives a tree: only a task of type
  \<open>suite\<close> has a \<open>tasks\<close> array.
\<close>

fun only_suites_own :: "store \<Rightarrow> task \<Rightarrow> bool"
and only_suites_own_list :: "store \<Rightarrow> task list \<Rightarrow> bool"
where
  "only_suites_own st (Task a ts) =
     ((task_type (st a) = ''suite'' \<or> ts = []) \<and> only_suites_own_list st ts)"
| "only_suites_own_list st [] = True"
| "only_suites_own_list st (t # ts) = (only_suites_own st t \<and> only_suites_own_list st ts)"

text \<open>The contract of the message builders that the counting of lines relies on: no
  builder returns the empty string.\<close>

definition lines_nonempty :: "formatter \<Rightarrow> bool" where
  "lines_nonempty F =
     ((\<forall>t. test_started F t \<noteq> []) \<and> (\<forall>t c x. test_log F t c x \<noteq> [])
      \<and> (\<forall>t e. test_fail F t e \<noteq> []) \<and> (\<forall>t d. test_finished F t d \<noteq> []))"

section \<open>A concrete run\<close>

text \<open>
  A formatter in the style of TeamCity service messages, and one file. The file object
  at address 0 owns: a suite in run mode (1) that failed in a hook, with an error
  without stack, and whose tasks are a passing test (2), a skipped test (3), a \<open>todo\<close>
  test without result (4), a failed test whose result has an empty \<open>errors\<close> array (8)
  and a test in run mode that never ran and has no result (11); a skipped suite (5) with
  a test without result (6) and a skipped test (10); a custom task (7); and a suite
  without tasks whose result has an empty \<open>errors\<close> array (9).
\<close>

definition tc :: formatter where
  "tc = \<lparr>escape = (\<lambda>s. s),
         suite_started = (\<lambda>i n. ''testSuiteStarted '' @ n),
         suite_finished = (\<lambda>i n. ''testSuiteFinished '' @ n),
         test_ignored = (\<lambda>t. ''testIgnored''),
         test_started = (\<lambda>t. ''testStarted''),
         test_log = (\<lambda>t c x. ''testStdOut '' @ x),
         test_fail = (\<lambda>t e. case e of Reported x \<Rightarrow> ''testFailed '' @ message x
                                 | MissingResultError u \<Rightarrow> ''testFailed missing result''),
         test_finished = (\<lambda>t d. ''testFinished'')\<rparr>"

definition hook_error :: error_with_diff where
  "hook_error = \<lparr>message = ''hook failed'', stack = None\<rparr>"

definition passed :: task_result where
  "passed = \<lparr>state = ''pass'', duration = Some 5, errors = None\<rparr>"

definition running :: task_result where
  "running = \<lparr>state = ''run'', duration = None, errors = None\<rparr>"

definition file_f1 :: task_obj where
  "file_f1 =
     \<lparr>task_id = ''f1'', name = ''a.test.ts'', task_type = ''suite'', mode = ''run'',
      result = None,
      suite = 0, file_of = None\<rparr>"

definition suite_s1 :: task_obj where
  "suite_s1 =
     \<lparr>task_id = ''s1'', name = ''outer'', task_type = ''suite'', mode = ''run'',
      result = Some \<lparr>state = ''fail'', duration = None, errors = Some [hook_error]\<rparr>,
      suite = 0, file_of = Some 0\<rparr>"

definition test_t1 :: task_obj where
  "test_t1 =
     \<lparr>task_id = ''t1'', name = ''passes'', task_type = ''test'', mode = ''run'',
      result = Some passed,
      suite = 1, file_of = Some 0\<rparr>"

definition test_t2 :: task_obj where
  "test_t2 =
     \<lparr>task_id = ''t2'', name = ''skipped'', task_type = ''test'', mode = ''skip'',
      result = None,
      suite = 1, file_of = Some 0\<rparr>"

definition test_t3 :: task_obj where
  "test_t3 =
     \<lparr>task_id = ''t3'', name = ''later'', task_type = ''test'', mode = ''todo'',
      result = None,
      suite = 1, file_of = Some 0\<rparr>"

definition suite_s2 :: task_obj where
  "suite_s2 =
     \<lparr>task_id = ''s2'', name = ''off'', task_type = ''suite'', mode = ''skip'',
      result = None,
      suite = 0, file_of = Some 0\<rparr>"

definition test_t4 :: task_obj where
  "test_t4 =
     \<lparr>task_id = ''t4'', name = ''inside'', task_type = ''test'', mode = ''run'',
      result = None,
      suite = 5, file_of = Some 0\<rparr>"

definition custom_c1 :: task_obj where
  "custom_c1 =
     \<lparr>task_id = ''c1'', name = ''bench'', task_type = ''custom'', mode = ''run'',
      result = None,
      suite = 0, file_of = Some 0\<rparr>"

definition test_t5 :: task_obj where
  "test_t5 =
     \<lparr>task_id = ''t5'', name = ''fails'', task_type = ''test'', mode = ''run'',
      result = Some \<lparr>state = ''fail'', duration = Some 2, errors = Some []\<rparr>,
      suite = 1, file_of = Some 0\<rparr>"

definition suite_s3 :: task_obj where
  "suite_s3 =
     \<lparr>task_id = ''s3'', name = ''empty'', task_type = ''suite'', mode = ''run'',
      result = Some \<lparr>state = ''pass'', duration = None, errors = Some []\<rparr>,
      suite = 0, file_of = Some 0\<rparr>"

definition test_t6 :: task_obj where
  "test_t6 =
     \<lparr>task_id = ''t6'', name = ''hidden'', task_type = ''test'', mode = ''skip'',
      result = None,
      suite = 5, file_of = Some 0\<rparr>"

definition test_t7 :: task_obj where
  "test_t7 =
     \<lparr>task_id = ''t7'', name = ''never ran'', task_type = ''test'', mode = ''run'',
      result = None,
      suite = 1, file_of = Some 0\<rparr>"

text \<open>A second file (12), without tasks, that failed with an error that has a stack.\<close>

definition traced_error :: error_with_diff where
  "traced_error = \<lparr>message = ''boom'', stack = Some ''Error: boom at b.test.ts:3''\<rparr>"

definition file_f2 :: task_obj where
  "file_f2 =
     \<lparr>task_id = ''f2'', name = ''b.test.ts'', task_type = ''suite'', mode = ''run'',
      result = Some \<lparr>state = ''fail'', duration = None, errors = Some [traced_error]\<rparr>,
      suite = 12, file_of = None\<rparr>"

definition ex_store :: store where
  "ex_store =
     (\<lambda>a. file_f1)
     (1 := suite_s1, 2 := test_t1, 3 := test_t2, 4 := test_t3, 5 := suite_s2, 6 := test_t4,
      7 := custom_c1, 8 := test_t5, 9 := suite_s3, 10 := test_t6, 11 := test_t7,
      12 := file_f2)"

definition ex_file :: task where
  "ex_file =
     Task 0 [Task 1 [Task 2 [], Task 3 [], Task 4 [], Task 8 [], Task 11 []],
             Task 5 [Task 6 [], Task 10 []], Task 7 [], Task 9 []]"

definition new_printer :: printer where
  "new_printer = \<lparr>fileMessageMap = Map.empty, testConsoleMap = Map.empty, console = []\<rparr>"

definition hello :: user_console_log where
  "hello = \<lparr>log_type = ''stdout'', content = ''hello''\<rparr>"

text \<open>The printer after the registration of the file.\<close>

definition listed :: printer where
  "listed =
     \<lparr>fileMessageMap =
        [''f1'' \<mapsto>
           [Literal ''testSuiteStarted a.test.ts'',
            Literal ''testSuiteStarted outer'', Deferred 2, Literal ''testIgnored'', Deferred 4,
            Deferred 8, Deferred 11, Literal ''testSuiteFinished outer'',
            Literal ''testSuiteStarted empty'', Literal ''testSuiteFinished empty'',
            Literal ''testSuiteFinished a.test.ts'']],
      testConsoleMap = Map.empty,
      console = []\<rparr>"

text \<open>Two runs between the registration of the file and its terminal notification:
  the same console logs and the same state changes, interleaved differently.\<close>

definition run_a :: "event list" where
  "run_a = [ConsoleLog ''t3'' hello, SetResult 4 (Some passed), TaskUpdate ''t3'' (Some passed),
            ConsoleLog ''t1'' hello]"

definition run_b :: "event list" where
  "run_b = [SetResult 4 (Some passed), ConsoleLog ''t3'' hello, ConsoleLog ''t1'' hello,
            TaskUpdate ''t3'' (Some passed)]"

text \<open>The printer after the registration of the file and one console log of test 2.\<close>

definition registered :: printer where
  "registered =
     (case addFile tc ex_store ex_file new_printer of
        Inl e \<Rightarrow> new_printer
      | Inr p \<Rightarrow> addTestConsoleLog ''t1'' hello p)"

section \<open>Evaluation of the concrete run\<close>

lemmas printer_defs =
  getTestErrors_def result_errors_def test_failed_def result_duration_def
  handleTest_closure_def handleTest_def addFile_def handeUpdate_def addTestConsoleLog_def
  logs_of_def

lemmas summary_defs =
  writeSummary_def failedSuites_def failedTests_def getSuites_def getTests_def toArray_def
  isAtomTest_def carries_error_def state_fail_def result_errors_def

lemmas object_defs =
  file_f1_def suite_s1_def test_t1_def test_t2_def test_t3_def suite_s2_def test_t4_def
  custom_c1_def test_t5_def suite_s3_def test_t6_def test_t7_def hook_error_def passed_def
  running_def hello_def

lemma ex_objects:
  "ex_store 0 = file_f1" "ex_store (Suc 0) = suite_s1" "ex_store 1 = suite_s1"
  "ex_store 2 = test_t1" "ex_store 3 = test_t2" "ex_store 4 = test_t3"
  "ex_store 5 = suite_s2" "ex_store 6 = test_t4" "ex_store 7 = custom_c1"
  "ex_store 8 = test_t5" "ex_store 9 = suite_s3" "ex_store 10 = test_t6"
  "ex_store 11 = test_t7"
  by (simp_all add: ex_store_def)


lemma tc_lines:
  "escape tc s = s"
  "suite_started tc i n = ''testSuiteStarted '' @ n"
  "suite_finished tc i n = ''testSuiteFinished '' @ n"
  "test_ignored tc t = ''testIgnored''"
  "test_started tc t = ''testStarted''"
  "test_log tc t c x = ''testStdOut '' @ x"
  "test_fail tc t (Reported e) = ''testFailed '' @ message e"
  "test_fail tc t (MissingResultError u) = ''testFailed missing result''"
  "test_finished tc t d = ''testFinished''"
  by (simp_all add: tc_def)

lemma tc_nonempty: "lines_nonempty tc"
  by (auto simp: lines_nonempty_def tc_def split: test_error.splits)

lemma registered_messages:
  "handleTasks tc ex_store (tasks ex_file) =
     Inr [Literal ''testSuiteStarted outer'', Deferred 2, Literal ''testIgnored'', Deferred 4,
          Deferred 8, Deferred 11, Literal ''testSuiteFinished outer'',
          Literal ''testSuiteStarted empty'', Literal ''testSuiteFinished empty'']"
  by (simp add: ex_file_def ex_objects object_defs tc_lines handleTest_def)

lemma registered_eq:
  "registered =
     \<lparr>fileMessageMap =
        [''f1'' \<mapsto>
           [Literal ''testSuiteStarted a.test.ts'',
            Literal ''testSuiteStarted outer'', Deferred 2, Literal ''testIgnored'', Deferred 4,
            Deferred 8, Deferred 11, Literal ''testSuiteFinished outer'',
            Literal ''testSuiteStarted empty'', Literal ''testSuiteFinished empty'',
            Literal ''testSuiteFinished a.test.ts'']],
      testConsoleMap = [''t1'' \<mapsto> [hello]],
      console = []\<rparr>"
  unfolding registered_def addFile_def registered_messages
  by (simp add: addTestConsoleLog_def new_printer_def ex_file_def ex_objects file_f1_def
        tc_lines)

lemma addFile_listed: "addFile tc ex_store ex_file new_printer = Inr listed"
  unfolding addFile_def registered_messages
  by (simp add: listed_def new_printer_def ex_file_def ex_objects file_f1_def tc_lines)

lemmas example_rules = ex_objects object_defs tc_lines registered_eq

section \<open>The tree walker\<close>

lemma handleTasks_append:
  "handleTasks F st (xs @ ys) =
     (case handleTasks F st xs of
        Inl e \<Rightarrow> Inl e
      | Inr ms \<Rightarrow> (case handleTasks F st ys of Inl e \<Rightarrow> Inl e | Inr ms' \<Rightarrow> Inr (ms @ ms')))"
  by (induction xs) (auto split: sum.splits)

text \<open>
  C8. A suite that is not in run mode, and a task of any type other than \<open>test\<close> and
  \<open>suite\<close>, gives no message template: \<open>handleTask\<close> returns the empty array without
  looking at the task's children, and the walk over a list of tasks gives the same
  result with the task as without it.
\<close>

theorem skipped_task_contributes_nothing:
  assumes "(task_type (st a) = ''suite'' \<and> mode (st a) \<noteq> ''run'')
           \<or> (task_type (st a) \<noteq> ''test'' \<and> task_type (st a) \<noteq> ''suite'')"
  shows "handleTask F st (Task a ts) = Inr []
         \<and> handleTasks F st (xs @ Task a ts # ys) = handleTasks F st (xs @ ys)"
proof -
  have none: "handleTask F st (Task a ts) = Inr []"
    using assms by auto
  have "handleTasks F st (Task a ts # ys) = handleTasks F st ys"
    using none by (simp del: handleTask.simps split: sum.splits)
  then have "handleTasks F st (xs @ Task a ts # ys) = handleTasks F st (xs @ ys)"
    by (simp only: handleTasks_append)
  with none show ?thesis by simp
qed

theorem skipped_task_contributes_nothing_witness:
  "((task_type (ex_store 5) = ''suite'' \<and> mode (ex_store 5) \<noteq> ''run'')
    \<or> (task_type (ex_store 5) \<noteq> ''test'' \<and> task_type (ex_store 5) \<noteq> ''suite''))
   \<and> handleTask tc ex_store (Task 5 [Task 6 []]) = Inr []
   \<and> handleTasks tc ex_store ([Task 2 []] @ Task 5 [Task 6 []] # [Task 7 []])
       = handleTasks tc ex_store ([Task 2 []] @ [Task 7 []])"
proof -
  have h: "(task_type (ex_store 5) = ''suite'' \<and> mode (ex_store 5) \<noteq> ''run'')
    \<or> (task_type (ex_store 5) \<noteq> ''test'' \<and> task_type (ex_store 5) \<noteq> ''suite'')"
    by (simp add: ex_objects suite_s2_def)
  from skipped_task_contributes_nothing
         [where st = ex_store and a = 5 and F = tc and ts = "[Task 6 []]"
            and xs = "[Task 2 []]" and ys = "[Task 7 []]"] h
  show ?thesis
    by blast
qed

text \<open>
  C10. For a task of type \<open>test\<close>, the walker returns the literal ignored line exactly
  when the mode is the string \<open>skip\<close>, and the deferred producer for every other mode
  (\<open>run\<close>, \<open>only\<close>, \<open>todo\<close>, anything else). Run at any later moment, the producer gives
  the started line, the log lines, the failure lines of a failed test and the finished
  line, without the empty ones.
\<close>

theorem only_skip_mode_gives_ignored_line:
  assumes "task_type (st a) = ''test''"
  shows "(handleTask F st (Task a ts) = Inr [Literal (test_ignored F a)]) = (mode (st a) = ''skip'')
       \<and> (handleTask F st (Task a ts) = Inr [Deferred a]) = (mode (st a) \<noteq> ''skip'')
       \<and> run_message F st' p (Deferred a) =
           filter (\<lambda>m. m \<noteq> [])
             ([test_started F a]
              @ map (\<lambda>lg. test_log F a (log_type lg) (content lg))
                  (case testConsoleMap p (task_id (st' a)) of None \<Rightarrow> [] | Some l \<Rightarrow> l)
              @ (if test_failed st' a then map (test_fail F a) (getTestErrors st' a) else [])
              @ [test_finished F a (result_duration st' a)])"
  using assms by (simp add: handleTest_def handleTest_closure_def Let_def)

theorem only_skip_mode_gives_ignored_line_witness:
  "task_type (ex_store 4) = ''test'' \<and> mode (ex_store 4) = ''todo''
   \<and> handleTask tc ex_store (Task 4 []) = Inr [Deferred 4]
   \<and> handleTask tc ex_store (Task 4 []) \<noteq> Inr [Literal (test_ignored tc 4)]
   \<and> run_message tc ex_store new_printer (Deferred 4)
       = [''testStarted'', ''testFailed hook failed'', ''testFinished'']"
proof -
  have h: "task_type (ex_store 4) = ''test''" and m: "mode (ex_store 4) = ''todo''"
    by (simp_all add: ex_objects test_t3_def)
  have lines: "run_message tc ex_store new_printer (Deferred 4)
                 = [''testStarted'', ''testFailed hook failed'', ''testFinished'']"
    by (simp add: printer_defs example_rules new_printer_def)
  from only_skip_mode_gives_ignored_line
         [where st = ex_store and a = 4 and F = tc and ts = "[]"] h m
  have "handleTask tc ex_store (Task 4 []) = Inr [Deferred 4]"
    and "handleTask tc ex_store (Task 4 []) \<noteq> Inr [Literal (test_ignored tc 4)]"
    by simp_all
  with h m lines show ?thesis by blast
qed

section \<open>The flush gate\<close>

text \<open>
  C2. A notification \<open>(i, r)\<close> leaves the printer as it is when there is no pending entry
  for \<open>i\<close>, when \<open>r\<close> is absent, or when its state is \<open>run\<close>. Otherwise the buffered
  messages are evaluated in stored order, their lines are appended in that order to the
  lines handed to the logger, and the entry is deleted; any further notification for
  \<open>i\<close> then changes nothing, so the file is flushed once.
\<close>

theorem flush_gate:
  "(fileMessageMap p i = None \<or> r = None \<or> (\<exists>res. r = Some res \<and> state res = ''run'')
      \<longrightarrow> handeUpdate F st (i, r) p = p)
   \<and> (\<forall>ms res. fileMessageMap p i = Some ms \<and> r = Some res \<and> state res \<noteq> ''run''
      \<longrightarrow> handeUpdate F st (i, r) p =
            p\<lparr>console := console p @ concat (map (run_message F st p) ms),
              fileMessageMap := (fileMessageMap p)(i := None)\<rparr>
          \<and> (\<forall>st' r'. handeUpdate F st' (i, r') (handeUpdate F st (i, r) p)
                         = handeUpdate F st (i, r) p))"
  by (auto simp: handeUpdate_def split: option.splits)

theorem flush_gate_witness:
  "fileMessageMap registered ''f1'' \<noteq> None \<and> state passed \<noteq> ''run''
   \<and> console (handeUpdate tc ex_store (''f1'', Some passed) registered)
       = [''testSuiteStarted a.test.ts'', ''testSuiteStarted outer'',
          ''testStarted'', ''testStdOut hello'', ''testFinished'',
          ''testIgnored'',
          ''testStarted'', ''testFailed hook failed'', ''testFinished'',
          ''testStarted'', ''testFinished'',
          ''testStarted'', ''testFailed hook failed'', ''testFinished'',
          ''testSuiteFinished outer'',
          ''testSuiteStarted empty'', ''testSuiteFinished empty'',
          ''testSuiteFinished a.test.ts'']
   \<and> fileMessageMap (handeUpdate tc ex_store (''f1'', Some passed) registered) ''f1'' = None
   \<and> handeUpdate tc ex_store (''f1'', Some passed)
        (handeUpdate tc ex_store (''f1'', Some passed) registered)
       = handeUpdate tc ex_store (''f1'', Some passed) registered
   \<and> state running = ''run''
   \<and> handeUpdate tc ex_store (''f1'', Some running) registered = registered
   \<and> handeUpdate tc ex_store (''f1'', None) registered = registered
   \<and> fileMessageMap registered ''t1'' = None
   \<and> handeUpdate tc ex_store (''t1'', Some passed) registered = registered"
proof -
  obtain ms where e: "fileMessageMap registered ''f1'' = Some ms"
    by (simp add: registered_eq)
  have s: "state passed \<noteq> ''run''" and r: "state running = ''run''"
    by (simp_all add: passed_def running_def)
  have n: "fileMessageMap registered ''t1'' = None"
    by (simp add: registered_eq)
  have lines: "console (handeUpdate tc ex_store (''f1'', Some passed) registered)
       = [''testSuiteStarted a.test.ts'', ''testSuiteStarted outer'',
          ''testStarted'', ''testStdOut hello'', ''testFinished'',
          ''testIgnored'',
          ''testStarted'', ''testFailed hook failed'', ''testFinished'',
          ''testStarted'', ''testFinished'',
          ''testStarted'', ''testFailed hook failed'', ''testFinished'',
          ''testSuiteFinished outer'',
          ''testSuiteStarted empty'', ''testSuiteFinished empty'',
          ''testSuiteFinished a.test.ts'']"
    by (simp add: printer_defs example_rules)
  note flush = flush_gate [where F = tc and st = ex_store and i = "''f1''" and p = registered
                              and r = "Some passed"]
  from flush e s
  have eq: "handeUpdate tc ex_store (''f1'', Some passed) registered
              = registered\<lparr>console := console registered
                                      @ concat (map (run_message tc ex_store registered) ms),
                            fileMessageMap := (fileMessageMap registered)(''f1'' := None)\<rparr>"
    and once: "handeUpdate tc ex_store (''f1'', Some passed)
                (handeUpdate tc ex_store (''f1'', Some passed) registered)
              = handeUpdate tc ex_store (''f1'', Some passed) registered"
    by blast+
  have gone: "fileMessageMap (handeUpdate tc ex_store (''f1'', Some passed) registered) ''f1''
               = None"
    by (simp add: eq)
  from flush_gate [where F = tc and st = ex_store and i = "''f1''" and p = registered
                     and r = "Some running"] r
  have run: "handeUpdate tc ex_store (''f1'', Some running) registered = registered"
    by blast
  from flush_gate [where F = tc and st = ex_store and i = "''f1''" and p = registered
                     and r = None]
  have absent: "handeUpdate tc ex_store (''f1'', None) registered = registered"
    by blast
  from flush_gate [where F = tc and st = ex_store and i = "''t1''" and p = registered
                     and r = "Some passed"] n
  have other: "handeUpdate tc ex_store (''t1'', Some passed) registered = registered"
    by blast
  from e s lines gone once r run absent n other show ?thesis
    by simp
qed

text \<open>
  C9 (as amended). A flush removes the pending entry of the file and nothing else from
  the per-file map, and no other operation of the printer removes an entry from it.
  The console-log map is not reclaimed: a flush leaves it as it is, and neither
  \<open>addFile\<close> nor \<open>addTestConsoleLog\<close> removes an entry from it.
\<close>

theorem reclamation:
  "testConsoleMap (handeUpdate F st pack p) = testConsoleMap p
   \<and> (\<forall>res. fileMessageMap p i \<noteq> None \<and> state res \<noteq> ''run''
        \<longrightarrow> fileMessageMap (handeUpdate F st (i, Some res) p) = (fileMessageMap p)(i := None))
   \<and> dom (testConsoleMap p) \<subseteq> dom (testConsoleMap (addTestConsoleLog j lg p))
   \<and> fileMessageMap (addTestConsoleLog j lg p) = fileMessageMap p
   \<and> (\<forall>p'. addFile F st fl p = Inr p'
        \<longrightarrow> testConsoleMap p' = testConsoleMap p
            \<and> dom (fileMessageMap p) \<subseteq> dom (fileMessageMap p'))"
  by (auto simp: handeUpdate_def addTestConsoleLog_def addFile_def
      split: option.splits sum.splits prod.splits)

theorem reclamation_witness:
  "fileMessageMap registered ''f1'' \<noteq> None \<and> state passed \<noteq> ''run''
   \<and> fileMessageMap (handeUpdate tc ex_store (''f1'', Some passed) registered)
       = (fileMessageMap registered)(''f1'' := None)
   \<and> testConsoleMap (handeUpdate tc ex_store (''f1'', Some passed) registered)
       = testConsoleMap registered
   \<and> (\<exists>p'. addFile tc ex_store ex_file registered = Inr p'
             \<and> testConsoleMap p' = testConsoleMap registered)"
proof -
  have e: "fileMessageMap registered ''f1'' \<noteq> None"
    by (simp add: registered_eq)
  have s: "state passed \<noteq> ''run''"
    by (simp add: passed_def)
  obtain p' where a: "addFile tc ex_store ex_file registered = Inr p'"
    by (simp add: addFile_def registered_messages)
  note r = reclamation [where F = tc and st = ex_store and p = registered and i = "''f1''"
                          and pack = "(''f1'', Some passed)" and fl = ex_file]
  from r e s
  have "fileMessageMap (handeUpdate tc ex_store (''f1'', Some passed) registered)
          = (fileMessageMap registered)(''f1'' := None)"
    by blast
  moreover from r
  have "testConsoleMap (handeUpdate tc ex_store (''f1'', Some passed) registered)
          = testConsoleMap registered"
    by blast
  moreover from r a have "testConsoleMap p' = testConsoleMap registered"
    by blast
  ultimately show ?thesis using e s a by blast
qed

text \<open>
  C9 as stated fails: after the flush of file \<open>f1\<close> the console log recorded for its
  test \<open>t1\<close> is still in the console-log map.
\<close>

theorem console_logs_not_reclaimed_counterexample:
  "fileMessageMap registered ''f1'' \<noteq> None
   \<and> testConsoleMap registered ''t1'' = Some [hello]
   \<and> fileMessageMap (handeUpdate tc ex_store (''f1'', Some passed) registered) ''f1'' = None
   \<and> testConsoleMap (handeUpdate tc ex_store (''f1'', Some passed) registered) ''t1''
       = Some [hello]"
  by (simp add: registered_eq handeUpdate_def passed_def)

section \<open>Result classification\<close>

text \<open>
  C1 (as amended). \<open>getTestErrors\<close> returns the errors of the test's own result when
  that result has an \<open>errors\<close> array, also an empty one; when it has none (no result, or
  a result without \<open>errors\<close>) the errors of the suite's result; when that has none
  either the errors of the file's result; and when the test has no file or the file's
  result has none, the single \<open>MissingResultError\<close> of the test. For a failed test
  without an \<open>errors\<close> array of its own whose suite has one, the failure lines are
  those of the suite's errors.
\<close>

theorem error_resolution_chain:
  "(\<forall>es. result_errors (result (st t)) = Some es \<longrightarrow> getTestErrors st t = map Reported es)
   \<and> (\<forall>es. result_errors (result (st t)) = None
            \<and> result_errors (result (st (suite (st t)))) = Some es
         \<longrightarrow> getTestErrors st t = map Reported es)
   \<and> (\<forall>f es. result_errors (result (st t)) = None
            \<and> result_errors (result (st (suite (st t)))) = None
            \<and> file_of (st t) = Some f \<and> result_errors (result (st f)) = Some es
         \<longrightarrow> getTestErrors st t = map Reported es)
   \<and> (result_errors (result (st t)) = None
        \<and> result_errors (result (st (suite (st t)))) = None
        \<and> (file_of (st t) = None
             \<or> (\<exists>f. file_of (st t) = Some f \<and> result_errors (result (st f)) = None))
         \<longrightarrow> getTestErrors st t = [MissingResultError t])
   \<and> (\<forall>es. test_failed st t \<and> result_errors (result (st t)) = None
            \<and> result_errors (result (st (suite (st t)))) = Some es
         \<longrightarrow> handleTest_closure F st p t =
               filter (\<lambda>m. m \<noteq> [])
                 ([test_started F t]
                  @ map (\<lambda>lg. test_log F t (log_type lg) (content lg)) (logs_of p (task_id (st t)))
                  @ map (\<lambda>e. test_fail F t (Reported e)) es
                  @ [test_finished F t (result_duration st t)]))"
  by (auto simp: getTestErrors_def handleTest_closure_def logs_of_def Let_def comp_def)

theorem error_resolution_chain_witness:
  "test_failed ex_store 11 \<and> result_errors (result (ex_store 11)) = None
   \<and> result_errors (result (ex_store (suite (ex_store 11)))) = Some [hook_error]
   \<and> getTestErrors ex_store 11 = map Reported [hook_error]
   \<and> handleTest_closure tc ex_store registered 11
       = [''testStarted'', ''testFailed hook failed'', ''testFinished'']
   \<and> result_errors (result (ex_store 6)) = None
   \<and> result_errors (result (ex_store (suite (ex_store 6)))) = None
   \<and> file_of (ex_store 6) = Some 0 \<and> result_errors (result (ex_store 0)) = None
   \<and> getTestErrors ex_store 6 = [MissingResultError 6]"
proof -
  have f: "test_failed ex_store 11"
    and t: "result_errors (result (ex_store 11)) = None"
    and s: "result_errors (result (ex_store (suite (ex_store 11)))) = Some [hook_error]"
    by (simp_all add: test_failed_def result_errors_def ex_objects test_t7_def suite_s1_def)
  have t': "result_errors (result (ex_store 6)) = None"
    and s': "result_errors (result (ex_store (suite (ex_store 6)))) = None"
    and fl: "file_of (ex_store 6) = Some 0"
    and fe: "result_errors (result (ex_store 0)) = None"
    by (simp_all add: result_errors_def ex_objects test_t4_def suite_s2_def file_f1_def)
  note c4 = error_resolution_chain [where st = ex_store and t = 11 and F = tc and p = registered]
  from c4 t s have e4: "getTestErrors ex_store 11 = map Reported [hook_error]"
    by blast
  from c4 f t s
  have "handleTest_closure tc ex_store registered 11 =
          filter (\<lambda>m. m \<noteq> [])
            ([test_started tc 11]
             @ map (\<lambda>lg. test_log tc 11 (log_type lg) (content lg))
                 (logs_of registered (task_id (ex_store 11)))
             @ map (\<lambda>e. test_fail tc 11 (Reported e)) [hook_error]
             @ [test_finished tc 11 (result_duration ex_store 11)])"
    by blast
  then have l4: "handleTest_closure tc ex_store registered 11
                   = [''testStarted'', ''testFailed hook failed'', ''testFinished'']"
    by (simp add: logs_of_def example_rules)
  from error_resolution_chain [where st = ex_store and t = 6] t' s' fl fe
  have e6: "getTestErrors ex_store 6 = [MissingResultError 6]"
    by blast
  from f t s e4 l4 t' s' fl fe e6 show ?thesis
    by blast
qed

text \<open>
  C1 as stated fails on an empty array: test 8 failed with \<open>errors = []\<close>, its suite
  has an error, and the resolved list is empty, so no failure line is emitted.
\<close>

theorem empty_test_errors_counterexample:
  "test_failed ex_store 8
   \<and> result_errors (result (ex_store 8)) = Some []
   \<and> result_errors (result (ex_store (suite (ex_store 8)))) = Some [hook_error]
   \<and> getTestErrors ex_store 8 = []
   \<and> handleTest_closure tc ex_store new_printer 8 = [''testStarted'', ''testFinished'']"
  by (simp add: printer_defs example_rules new_printer_def)

text \<open>
  C5 (as amended). The lines of a test that the walker visits, from the template built
  at registration (store \<open>st\<close>) and run at the flush (store \<open>st'\<close>), follow the outcome:
  the ignored line when the mode, read at registration, is \<open>skip\<close>; started, logs, one
  failure line per resolved error and finished when at the flush there is no result or
  its state is \<open>fail\<close>; started, logs and finished otherwise. A test that is not
  skipped and has no result, whose suite and file have no \<open>errors\<close> array either,
  gives the failure line of the \<open>MissingResultError\<close> followed by the finished line
  with duration 0.
\<close>

theorem classification_and_lines:
  "run_message F st' p (handleTest F st t) =
     (case classify (mode (st t)) (result (st' t)) of
        Skip \<Rightarrow> [test_ignored F t]
      | Fail \<Rightarrow>
          filter (\<lambda>m. m \<noteq> [])
            ([test_started F t]
             @ map (\<lambda>lg. test_log F t (log_type lg) (content lg)) (logs_of p (task_id (st' t)))
             @ map (test_fail F t) (getTestErrors st' t)
             @ [test_finished F t (result_duration st' t)])
      | Pass \<Rightarrow>
          filter (\<lambda>m. m \<noteq> [])
            ([test_started F t]
             @ map (\<lambda>lg. test_log F t (log_type lg) (content lg)) (logs_of p (task_id (st' t)))
             @ [test_finished F t (result_duration st' t)]))
   \<and> (mode (st t) \<noteq> ''skip'' \<and> result (st' t) = None
        \<and> result_errors (result (st' (suite (st' t)))) = None
        \<and> (file_of (st' t) = None
             \<or> (\<exists>f. file_of (st' t) = Some f \<and> result_errors (result (st' f)) = None))
      \<longrightarrow> run_message F st' p (handleTest F st t) =
            filter (\<lambda>m. m \<noteq> [])
              ([test_started F t]
               @ map (\<lambda>lg. test_log F t (log_type lg) (content lg)) (logs_of p (task_id (st' t)))
               @ [test_fail F t (MissingResultError t), test_finished F t 0]))"
proof (intro conjI impI)
  show "run_message F st' p (handleTest F st t) =
     (case classify (mode (st t)) (result (st' t)) of
        Skip \<Rightarrow> [test_ignored F t]
      | Fail \<Rightarrow>
          filter (\<lambda>m. m \<noteq> [])
            ([test_started F t]
             @ map (\<lambda>lg. test_log F t (log_type lg) (content lg)) (logs_of p (task_id (st' t)))
             @ map (test_fail F t) (getTestErrors st' t)
             @ [test_finished F t (result_duration st' t)])
      | Pass \<Rightarrow>
          filter (\<lambda>m. m \<noteq> [])
            ([test_started F t]
             @ map (\<lambda>lg. test_log F t (log_type lg) (content lg)) (logs_of p (task_id (st' t)))
             @ [test_finished F t (result_duration st' t)]))"
  proof (cases "mode (st t) = ''skip''")
    case True
    then show ?thesis
      by (simp add: handleTest_def classify_def)
  next
    case False
    show ?thesis
    proof (cases "result (st' t)")
      case None
      with False show ?thesis
        by (simp add: handleTest_def classify_def handleTest_closure_def test_failed_def
              logs_of_def)
    next
      case (Some res)
      with False show ?thesis
        by (simp add: handleTest_def classify_def handleTest_closure_def test_failed_def
              logs_of_def)
    qed
  qed
next
  assume h: "mode (st t) \<noteq> ''skip'' \<and> result (st' t) = None
        \<and> result_errors (result (st' (suite (st' t)))) = None
        \<and> (file_of (st' t) = None
             \<or> (\<exists>f. file_of (st' t) = Some f \<and> result_errors (result (st' f)) = None))"
  then have "getTestErrors st' t = [MissingResultError t]"
    by (auto simp: getTestErrors_def result_errors_def)
  with h show "run_message F st' p (handleTest F st t) =
            filter (\<lambda>m. m \<noteq> [])
              ([test_started F t]
               @ map (\<lambda>lg. test_log F t (log_type lg) (content lg)) (logs_of p (task_id (st' t)))
               @ [test_fail F t (MissingResultError t), test_finished F t 0])"
    by (simp add: handleTest_def handleTest_closure_def test_failed_def logs_of_def
          result_duration_def)
qed

theorem classification_and_lines_witness:
  "mode (ex_store 6) \<noteq> ''skip'' \<and> result (ex_store 6) = None
   \<and> result_errors (result (ex_store (suite (ex_store 6)))) = None
   \<and> file_of (ex_store 6) = Some 0 \<and> result_errors (result (ex_store 0)) = None
   \<and> run_message tc ex_store registered (handleTest tc ex_store 6)
       = [''testStarted'', ''testFailed missing result'', ''testFinished'']
   \<and> classify (mode (ex_store 2)) (result (ex_store 2)) = Pass
   \<and> run_message tc ex_store registered (handleTest tc ex_store 2)
       = [''testStarted'', ''testStdOut hello'', ''testFinished'']"
proof -
  have m: "mode (ex_store 6) \<noteq> ''skip''" and r: "result (ex_store 6) = None"
    and s: "result_errors (result (ex_store (suite (ex_store 6)))) = None"
    and fl: "file_of (ex_store 6) = Some 0"
    and fe: "result_errors (result (ex_store 0)) = None"
    by (simp_all add: result_errors_def ex_objects test_t4_def suite_s2_def file_f1_def)
  from classification_and_lines
         [where st = ex_store and st' = ex_store and t = 6 and F = tc and p = registered]
       m r s fl fe
  have "run_message tc ex_store registered (handleTest tc ex_store 6) =
            filter (\<lambda>m. m \<noteq> [])
              ([test_started tc 6]
               @ map (\<lambda>lg. test_log tc 6 (log_type lg) (content lg))
                   (logs_of registered (task_id (ex_store 6)))
               @ [test_fail tc 6 (MissingResultError 6), test_finished tc 6 0])"
    by blast
  then have l6: "run_message tc ex_store registered (handleTest tc ex_store 6)
                   = [''testStarted'', ''testFailed missing result'', ''testFinished'']"
    by (simp add: logs_of_def example_rules)
  have c: "classify (mode (ex_store 2)) (result (ex_store 2)) = Pass"
    by (simp add: classify_def ex_objects test_t1_def passed_def)
  from classification_and_lines
         [where st = ex_store and st' = ex_store and t = 2 and F = tc and p = registered] c
  have "run_message tc ex_store registered (handleTest tc ex_store 2) =
          filter (\<lambda>m. m \<noteq> [])
            ([test_started tc 2]
             @ map (\<lambda>lg. test_log tc 2 (log_type lg) (content lg))
                 (logs_of registered (task_id (ex_store 2)))
             @ [test_finished tc 2 (result_duration ex_store 2)])"
    by simp
  then have l2: "run_message tc ex_store registered (handleTest tc ex_store 2)
                   = [''testStarted'', ''testStdOut hello'', ''testFinished'']"
    by (simp add: logs_of_def example_rules)
  from m r s fl fe l6 c l2 show ?thesis
    by blast
qed

text \<open>
  C5 as stated fails when the suite has errors: test 11 is in run mode and has no
  result, and its failure line carries the suite's error, not the synthetic one.
\<close>

theorem missing_result_with_suite_error_counterexample:
  "task_type (ex_store 11) = ''test'' \<and> mode (ex_store 11) \<noteq> ''skip''
   \<and> result (ex_store 11) = None
   \<and> run_message tc ex_store new_printer (handleTest tc ex_store 11)
       = [''testStarted'', ''testFailed hook failed'', ''testFinished'']
   \<and> test_fail tc 11 (MissingResultError 11)
       \<notin> set (run_message tc ex_store new_printer (handleTest tc ex_store 11))"
  by (simp add: printer_defs example_rules new_printer_def)

text \<open>The closure keeps every line when no builder returns the empty string.\<close>

lemma filter_nonempty_all: "\<forall>m \<in> set ms. m \<noteq> [] \<Longrightarrow> filter (\<lambda>m. m \<noteq> []) ms = ms"
  by (induction ms) auto

lemma closure_length:
  assumes "lines_nonempty F"
  shows "length (handleTest_closure F st p t) =
           2 + length (logs_of p (task_id (st t)))
             + (if test_failed st t then length (getTestErrors st t) else 0)"
proof -
  let ?ms = "[test_started F t]
     @ map (\<lambda>lg. test_log F t (log_type lg) (content lg)) (logs_of p (task_id (st t)))
     @ (if test_failed st t then map (test_fail F t) (getTestErrors st t) else [])
     @ [test_finished F t (result_duration st t)]"
  have "\<forall>m \<in> set ?ms. m \<noteq> []"
    using assms unfolding lines_nonempty_def by (auto; metis)
  then have "filter (\<lambda>m. m \<noteq> []) ?ms = ?ms"
    by (rule filter_nonempty_all)
  moreover have "handleTest_closure F st p t = filter (\<lambda>m. m \<noteq> []) ?ms"
    by (simp add: handleTest_closure_def logs_of_def Let_def)
  ultimately have "handleTest_closure F st p t = ?ms"
    by simp
  then show ?thesis by simp
qed

text \<open>
  C4 (as amended). With builders that never return the empty string, a test that the
  walker visits contributes one message to the file's sequence, and that message gives
  one line when the mode is \<open>skip\<close>, and otherwise two lines plus one per buffered
  console log of the test's id plus, when the test failed, one per resolved error.
  Every recorded console log adds one to the logs buffered for its id. A test among the
  tasks of a suite that is not in run mode is not visited and contributes nothing.
\<close>

theorem test_line_count:
  assumes "lines_nonempty F" and "task_type (st t) = ''test''"
  shows "(\<exists>m. handleTask F st (Task t ts) = Inr [m]
            \<and> length (run_message F st' p m) =
                (if mode (st t) = ''skip'' then 1
                 else 2 + length (logs_of p (task_id (st' t)))
                        + (if test_failed st' t then length (getTestErrors st' t) else 0)))
       \<and> length (logs_of (addTestConsoleLog i lg p) i) = Suc (length (logs_of p i))
       \<and> (task_type (st s) = ''suite'' \<and> mode (st s) \<noteq> ''run''
            \<longrightarrow> handleTask F st (Task s (xs @ Task t ts # ys)) = Inr [])"
  using assms closure_length [of F st' p t]
  by (auto simp: handleTest_def logs_of_def addTestConsoleLog_def split: option.splits)

theorem test_line_count_witness:
  "lines_nonempty tc \<and> task_type (ex_store 2) = ''test'' \<and> mode (ex_store 2) \<noteq> ''skip''
   \<and> handleTask tc ex_store (Task 2 []) = Inr [Deferred 2]
   \<and> length (run_message tc ex_store registered (Deferred 2))
       = 2 + length (logs_of registered (task_id (ex_store 2)))
           + (if test_failed ex_store 2 then length (getTestErrors ex_store 2) else 0)
   \<and> length (logs_of registered (task_id (ex_store 2))) = 1
   \<and> \<not> test_failed ex_store 2
   \<and> length (run_message tc ex_store registered (Deferred 2)) = 3
   \<and> task_type (ex_store 10) = ''test''
   \<and> task_type (ex_store 5) = ''suite'' \<and> mode (ex_store 5) \<noteq> ''run''
   \<and> handleTask tc ex_store (Task 5 ([Task 6 []] @ Task 10 [] # [])) = Inr []"
proof -
  have ty: "task_type (ex_store 2) = ''test''" and m: "mode (ex_store 2) \<noteq> ''skip''"
    by (simp_all add: ex_objects test_t1_def)
  have ty': "task_type (ex_store 10) = ''test''"
    by (simp add: ex_objects test_t6_def)
  have su: "task_type (ex_store 5) = ''suite''" and off: "mode (ex_store 5) \<noteq> ''run''"
    by (simp_all add: ex_objects suite_s2_def)
  have h: "handleTask tc ex_store (Task 2 []) = Inr [Deferred 2]"
    using ty m by (simp add: handleTest_def)
  have l: "length (logs_of registered (task_id (ex_store 2))) = 1"
    and f: "\<not> test_failed ex_store 2"
    by (simp_all add: logs_of_def test_failed_def example_rules)
  from test_line_count
         [where F = tc and st = ex_store and t = 2 and ts = "[]" and st' = ex_store
            and p = registered, OF tc_nonempty ty] h m
  have c: "length (run_message tc ex_store registered (Deferred 2))
       = 2 + length (logs_of registered (task_id (ex_store 2)))
           + (if test_failed ex_store 2 then length (getTestErrors ex_store 2) else 0)"
    by auto
  then have n: "length (run_message tc ex_store registered (Deferred 2)) = 3"
    using l f by simp
  from test_line_count
         [where F = tc and st = ex_store and t = 10 and ts = "[]" and s = 5
            and xs = "[Task 6 []]" and ys = "[]", OF tc_nonempty ty'] su off
  have hidden: "handleTask tc ex_store (Task 5 ([Task 6 []] @ Task 10 [] # [])) = Inr []"
    by blast
  from tc_nonempty ty m h c l f n ty' su off hidden show ?thesis
    by blast
qed

text \<open>
  C4 as stated fails for a test inside a skipped suite: the file has two tests of mode
  \<open>skip\<close>, test 3 in the suite in run mode and test 10 in the skipped suite 5; the
  suite 5 gives no message, and the flushed file has one ignored line.
\<close>

theorem test_in_skipped_suite_counterexample:
  "task_type (ex_store 10) = ''test'' \<and> mode (ex_store 10) = ''skip''
   \<and> filter (\<lambda>a. task_type (ex_store a) = ''test'' \<and> mode (ex_store a) = ''skip'')
        (all_tasks ex_file) = [3, 10]
   \<and> handleTask tc ex_store (Task 5 [Task 6 [], Task 10 []]) = Inr []
   \<and> addFile tc ex_store ex_file new_printer = Inr listed
   \<and> console (handeUpdate tc ex_store (''f1'', Some passed) listed)
       = [''testSuiteStarted a.test.ts'', ''testSuiteStarted outer'',
          ''testStarted'', ''testFinished'',
          ''testIgnored'',
          ''testStarted'', ''testFailed hook failed'', ''testFinished'',
          ''testStarted'', ''testFinished'',
          ''testStarted'', ''testFailed hook failed'', ''testFinished'',
          ''testSuiteFinished outer'',
          ''testSuiteStarted empty'', ''testSuiteFinished empty'',
          ''testSuiteFinished a.test.ts'']"
proof -
  have "filter (\<lambda>a. task_type (ex_store a) = ''test'' \<and> mode (ex_store a) = ''skip'')
          (all_tasks ex_file) = [3, 10]"
    by (simp add: ex_file_def ex_objects object_defs)
  moreover have "handleTask tc ex_store (Task 5 [Task 6 [], Task 10 []]) = Inr []"
    by (simp add: ex_objects suite_s2_def)
  moreover have "console (handeUpdate tc ex_store (''f1'', Some passed) listed)
       = [''testSuiteStarted a.test.ts'', ''testSuiteStarted outer'',
          ''testStarted'', ''testFinished'',
          ''testIgnored'',
          ''testStarted'', ''testFailed hook failed'', ''testFinished'',
          ''testStarted'', ''testFinished'',
          ''testStarted'', ''testFailed hook failed'', ''testFinished'',
          ''testSuiteFinished outer'',
          ''testSuiteStarted empty'', ''testSuiteFinished empty'',
          ''testSuiteFinished a.test.ts'']"
    by (simp add: listed_def printer_defs ex_objects object_defs tc_lines)
  moreover have "task_type (ex_store 10) = ''test''" "mode (ex_store 10) = ''skip''"
    by (simp_all add: ex_objects test_t6_def)
  ultimately show ?thesis
    using addFile_listed by blast
qed

section \<open>The run summary\<close>

lemma getSuites_all_tasks:
  "only_suites_own st t \<Longrightarrow>
     getSuites_of st t = filter (\<lambda>a. task_type (st a) = ''suite'') (all_tasks t)"
  "only_suites_own_list st ts \<Longrightarrow>
     getSuites_list st ts = filter (\<lambda>a. task_type (st a) = ''suite'') (all_tasks_list ts)"
  by (induction st t and st ts rule: getSuites_of_getSuites_list.induct) auto

lemma all_tasks_leaf:
  "only_suites_own st t \<Longrightarrow> task_type (st (ref_of t)) \<noteq> ''suite'' \<Longrightarrow> all_tasks t = [ref_of t]"
  by (cases t) auto

lemma getTests_all_tasks:
  "only_suites_own st t \<Longrightarrow> getTests_of st t = filter (isAtomTest st) (all_tasks t)"
  "only_suites_own_list st ts \<Longrightarrow> getTests_tasks st ts = filter (isAtomTest st) (all_tasks_list ts)"
  by (induction st t and st ts rule: getTests_of_getTests_tasks.induct)
     (auto simp: isAtomTest_def all_tasks_leaf)

lemma concat_getSuites_of: "concat (map (getSuites_of st) ts) = getSuites_list st ts"
  by (induction ts) auto

lemma getTests_of_atom: "isAtomTest st (ref_of t) \<Longrightarrow> getTests_of st t = [ref_of t]"
  by (cases t) simp

lemma concat_getTests_of: "concat (map (getTests_of st) ts) = getTests_tasks st ts"
  by (induction ts) (auto simp: getTests_of_atom)

text \<open>The recursive calls of the source go through \<open>toArray\<close>.\<close>

lemma getSuites_array: "getSuites st (Some (Many ts)) = getSuites_list st ts"
  by (simp add: getSuites_def toArray_def concat_getSuites_of)

lemma getTests_single: "getTests st (Some (Single t)) = getTests_of st t"
  by (simp add: getTests_def toArray_def)

text \<open>
  C6 (as amended). On a tree in which only suites own tasks, \<open>totalSuitesCount\<close> is the
  number of tasks of type \<open>suite\<close> in the tree, nested ones included;
  \<open>failedSuitesCount\<close> is the number of those whose result has an \<open>errors\<close> array, also
  an empty one; \<open>totalTestsCount\<close> is the number of atomic tasks (\<open>test\<close> or \<open>custom\<close>),
  and \<open>failedTestsCount\<close> the number of those whose result state is \<open>fail\<close>.
\<close>

theorem summary_counts:
  assumes "only_suites_own_list st (toArray files)"
  shows "totalSuitesCount (writeSummary st files) =
           length (filter (\<lambda>a. task_type (st a) = ''suite'') (all_tasks_list (toArray files)))
       \<and> failedSuitesCount (writeSummary st files) =
           length (filter (\<lambda>a. task_type (st a) = ''suite'' \<and> result_errors (result (st a)) \<noteq> None)
                     (all_tasks_list (toArray files)))
       \<and> totalTestsCount (writeSummary st files) =
           length (filter (isAtomTest st) (all_tasks_list (toArray files)))
       \<and> failedTestsCount (writeSummary st files) =
           length (filter (\<lambda>a. isAtomTest st a \<and> state_fail st a) (all_tasks_list (toArray files)))"
proof -
  have s: "getSuites st files =
             filter (\<lambda>a. task_type (st a) = ''suite'') (all_tasks_list (toArray files))"
    using assms by (simp add: getSuites_def concat_getSuites_of getSuites_all_tasks)
  have t: "getTests st files = filter (isAtomTest st) (all_tasks_list (toArray files))"
    using assms by (simp add: getTests_def concat_getTests_of getTests_all_tasks)
  show ?thesis
    by (simp add: writeSummary_def failedSuites_def failedTests_def s t conj_commute)
qed

theorem summary_counts_witness:
  "only_suites_own_list ex_store (toArray (Some (Single ex_file)))
   \<and> totalSuitesCount (writeSummary ex_store (Some (Single ex_file))) = 4
   \<and> failedSuitesCount (writeSummary ex_store (Some (Single ex_file))) = 2
   \<and> totalTestsCount (writeSummary ex_store (Some (Single ex_file))) = 8
   \<and> failedTestsCount (writeSummary ex_store (Some (Single ex_file))) = 1"
proof -
  have w: "only_suites_own_list ex_store (toArray (Some (Single ex_file)))"
    by (simp add: toArray_def ex_file_def ex_objects object_defs)
  have a: "all_tasks_list (toArray (Some (Single ex_file))) = [0, 1, 2, 3, 4, 8, 11, 5, 6, 10, 7, 9]"
    by (simp add: toArray_def ex_file_def)
  from summary_counts [OF w]
  show ?thesis
    unfolding a using w
    by (simp add: isAtomTest_def state_fail_def result_errors_def ex_objects object_defs)
qed

text \<open>
  C6 as stated fails on an empty array: suite 9 has \<open>errors = []\<close>, it carries no
  error, and it is counted as failed.
\<close>

theorem empty_errors_array_counterexample:
  "task_type (ex_store 9) = ''suite'' \<and> result_errors (result (ex_store 9)) = Some []
   \<and> failedSuitesCount (writeSummary ex_store (Some (Single (Task 9 [])))) = 1
   \<and> length (filter (carries_error ex_store) (getSuites ex_store (Some (Single (Task 9 []))))) = 0"
  by (simp add: summary_defs ex_objects suite_s3_def)





section \<open>Emission order\<close>

text \<open>A run changes the store through its \<open>SetResult\<close> events only, and the console-log
  map through its \<open>ConsoleLog\<close> events only.\<close>

lemma handeUpdate_testConsoleMap:
  "testConsoleMap (handeUpdate F st pack p) = testConsoleMap p"
  by (simp add: handeUpdate_def split: option.splits)

lemma addTestConsoleLog_testConsoleMap:
  "testConsoleMap (addTestConsoleLog i lg p) =
     (testConsoleMap p)(i \<mapsto> (case testConsoleMap p i of None \<Rightarrow> [lg] | Some l \<Rightarrow> l @ [lg]))"
  by (simp add: addTestConsoleLog_def split: option.splits)

lemma run_store: "fst (run F ev (st, p)) = store_after ev st"
proof (induction ev arbitrary: st p)
  case Nil
  show ?case by simp
next
  case (Cons e ev)
  then show ?case by (cases e) (simp_all del: fun_upd_apply)
qed

lemma run_logs: "testConsoleMap (snd (run F ev (st, p))) = logs_after ev (testConsoleMap p)"
proof (induction ev arbitrary: st p)
  case Nil
  show ?case by simp
next
  case (Cons e ev)
  then show ?case
    by (cases e)
       (simp_all add: handeUpdate_testConsoleMap addTestConsoleLog_testConsoleMap
          del: fun_upd_apply)
qed

lemma store_after_changes: "store_after (filter (\<lambda>e. \<not> is_log e) ev) st = store_after ev st"
proof (induction ev arbitrary: st)
  case Nil
  show ?case by simp
next
  case (Cons e ev)
  then show ?case by (cases e) (simp_all del: fun_upd_apply)
qed

lemma logs_after_logs: "logs_after (filter is_log ev) m = logs_after ev m"
proof (induction ev arbitrary: m)
  case Nil
  show ?case by simp
next
  case (Cons e ev)
  then show ?case by (cases e) (simp_all del: fun_upd_apply)
qed

text \<open>The pending entry of a file survives every event that is not its terminal
  notification.\<close>

lemma handeUpdate_other:
  "\<not> terminal_for f (TaskUpdate i r) \<Longrightarrow>
     fileMessageMap (handeUpdate F st (i, r) p) f = fileMessageMap p f"
  by (cases r) (auto simp: handeUpdate_def split: option.splits)

lemma run_pending:
  "quiet_for f ev \<Longrightarrow> fileMessageMap (snd (run F ev (st, p))) f = fileMessageMap p f"
proof (induction ev arbitrary: st p)
  case Nil
  show ?case by simp
next
  case (Cons e ev)
  then show ?case
    by (cases e) (simp_all add: handeUpdate_other addTestConsoleLog_def split: option.splits)
qed

text \<open>The store after a run differs from the store before it in results only, and the
  walker does not read results.\<close>

lemma same_static_refl: "same_static st st"
  by (simp add: same_static_def)

lemma same_static_update:
  "same_static st st' \<Longrightarrow> same_static st (st'(a := (st' a)\<lparr>result := r\<rparr>))"
  by (simp add: same_static_def)

lemma same_static_after: "same_static st0 st \<Longrightarrow> same_static st0 (store_after ev st)"
proof (induction ev arbitrary: st)
  case Nil
  then show ?case by simp
next
  case (Cons e ev)
  show ?case
  proof (cases e)
    case (SetResult a r)
    from Cons.prems have "same_static st0 (st(a := (st a)\<lparr>result := r\<rparr>))"
      by (rule same_static_update)
    then have "same_static st0 (store_after ev (st(a := (st a)\<lparr>result := r\<rparr>)))"
      by (rule Cons.IH)
    with SetResult show ?thesis by simp
  next
    case (TaskUpdate i r)
    with Cons show ?thesis by simp
  next
    case (ConsoleLog i lg)
    with Cons show ?thesis by simp
  qed
qed

lemma same_static_fields:
  assumes "same_static st st'"
  shows "task_id (st' a) = task_id (st a)" "name (st' a) = name (st a)"
    "task_type (st' a) = task_type (st a)" "mode (st' a) = mode (st a)"
    "file_of (st' a) = file_of (st a)" "suite (st' a) = suite (st a)"
  using assms by (simp_all add: same_static_def)

lemma handleTasks_static:
  "(\<And>t. t \<in> set ts \<Longrightarrow> handleTask F st' t = handleTask F st t) \<Longrightarrow>
     handleTasks F st' ts = handleTasks F st ts"
proof (induction ts)
  case Nil
  show ?case by simp
next
  case (Cons t ts)
  have "handleTask F st' t = handleTask F st t"
    using Cons.prems by simp
  moreover have "handleTasks F st' ts = handleTasks F st ts"
    by (rule Cons.IH) (simp add: Cons.prems)
  ultimately show ?case
    by (simp del: handleTask.simps split: sum.splits)
qed

lemma handleTask_static:
  assumes "same_static st st'"
  shows "handleTask F st' t = handleTask F st t"
proof (induction t)
  case (Task a ts)
  then have "handleTasks F st' ts = handleTasks F st ts"
    by (intro handleTasks_static)
  then show ?case
    using same_static_fields [OF assms]
    by (simp add: handleTest_def split: option.splits sum.splits)
qed

text \<open>Run against one store, the messages of the walker give the lines in pre-order.\<close>

lemma run_handleTest: "run_message F st p (handleTest F st t) = test_lines F st p t"
  by (simp add: handleTest_def test_lines_def)

lemma run_handleTasks:
  assumes "\<And>t ms. t \<in> set ts \<Longrightarrow> handleTask F st t = Inr ms \<Longrightarrow>
             concat (map (run_message F st p) ms) = preorder_task F st p t"
    and "handleTasks F st ts = Inr ms"
  shows "concat (map (run_message F st p) ms) = preorder_tasks F st p ts"
  using assms
proof (induction ts arbitrary: ms)
  case Nil
  then show ?case by simp
next
  case (Cons t ts)
  from Cons.prems(2) obtain m1 m2
    where t: "handleTask F st t = Inr m1" and ts: "handleTasks F st ts = Inr m2"
      and ms: "ms = m1 @ m2"
    by (auto simp del: handleTask.simps split: sum.splits)
  have "concat (map (run_message F st p) m1) = preorder_task F st p t"
    using Cons.prems(1) t by simp
  moreover have "concat (map (run_message F st p) m2) = preorder_tasks F st p ts"
    using Cons.IH Cons.prems(1) ts by simp
  ultimately show ?case
    using ms by (simp del: preorder_task.simps)
qed

lemma run_handleTask:
  "handleTask F st t = Inr ms \<Longrightarrow>
     concat (map (run_message F st p) ms) = preorder_task F st p t"
proof (induction t arbitrary: ms)
  case (Task a ts)
  show ?case
  proof (cases "task_type (st a) = ''test''")
    case True
    with Task.prems show ?thesis
      by (auto simp: run_handleTest)
  next
    case False
    show ?thesis
    proof (cases "task_type (st a) = ''suite'' \<and> mode (st a) = ''run''")
      case no: False
      with False Task.prems show ?thesis by auto
    next
      case True
      with False Task.prems obtain f m
        where f: "file_of (st a) = Some f" and m: "handleTasks F st ts = Inr m"
          and ms: "ms = [Literal (suite_started F (task_id (st f)) (escape F (name (st a))))]
                        @ m
                        @ [Literal (suite_finished F (task_id (st f)) (escape F (name (st a))))]"
        by (auto split: option.splits sum.splits)
      have "concat (map (run_message F st p) m) = preorder_tasks F st p ts"
        using Task.IH m by (intro run_handleTasks) auto
      with False True f ms show ?thesis by simp
    qed
  qed
qed

lemma handleTasks_same_static:
  "same_static st st' \<Longrightarrow> handleTasks F st' ts = handleTasks F st ts"
  by (intro handleTasks_static handleTask_static)

lemma run_handleTasks_all:
  "handleTasks F st ts = Inr ms \<Longrightarrow>
     concat (map (run_message F st p) ms) = preorder_tasks F st p ts"
  by (rule run_handleTasks) (auto intro: run_handleTask)

text \<open>The pre-order lines depend on the printer through its console-log map only.\<close>

lemma test_lines_logs:
  "testConsoleMap p = testConsoleMap p' \<Longrightarrow> test_lines F st p t = test_lines F st p' t"
  by (simp add: test_lines_def handleTest_closure_def)

lemma preorder_tasks_logs:
  "(\<And>t. t \<in> set ts \<Longrightarrow> preorder_task F st p t = preorder_task F st p' t) \<Longrightarrow>
     preorder_tasks F st p ts = preorder_tasks F st p' ts"
  by (induction ts) (simp_all del: preorder_task.simps)

lemma preorder_task_logs:
  assumes "testConsoleMap p = testConsoleMap p'"
  shows "preorder_task F st p t = preorder_task F st p' t"
proof (induction t)
  case (Task a ts)
  then have "preorder_tasks F st p ts = preorder_tasks F st p' ts"
    by (intro preorder_tasks_logs)
  then show ?case
    using test_lines_logs [OF assms] by (simp split: option.splits)
qed

lemma preorder_file_logs:
  "testConsoleMap p = testConsoleMap p' \<Longrightarrow> preorder_file F st p fl = preorder_file F st p' fl"
proof -
  assume h: "testConsoleMap p = testConsoleMap p'"
  have "preorder_tasks F st p (tasks fl) = preorder_tasks F st p' (tasks fl)"
    by (intro preorder_tasks_logs preorder_task_logs h)
  then show ?thesis
    by (simp add: preorder_file_def)
qed

text \<open>The flush after a run that did not flush the file gives the pre-order lines of the
  store and the console logs that the run has left.\<close>

lemma flush_is_preorder:
  assumes reg: "addFile F st0 fl p0 = Inr p1"
    and quiet: "quiet_for (task_id (st0 (ref_of fl))) ev"
    and fin: "state res \<noteq> ''run''"
  shows "flush_lines F (task_id (st0 (ref_of fl))) res (run F ev (st0, p1))
           = preorder_file F (fst (run F ev (st0, p1))) (snd (run F ev (st0, p1))) fl"
proof -
  let ?f = "task_id (st0 (ref_of fl))"
  let ?n = "escape F (name (st0 (ref_of fl)))"
  let ?st = "fst (run F ev (st0, p1))"
  let ?q = "snd (run F ev (st0, p1))"
  from reg obtain ms where ms: "handleTasks F st0 (tasks fl) = Inr ms"
    and p1: "fileMessageMap p1 ?f =
               Some ([Literal (suite_started F ?f ?n)] @ ms @ [Literal (suite_finished F ?f ?n)])"
    by (auto simp: addFile_def split: sum.splits)
  have pending: "fileMessageMap ?q ?f =
               Some ([Literal (suite_started F ?f ?n)] @ ms @ [Literal (suite_finished F ?f ?n)])"
    using run_pending [OF quiet] p1 by simp
  have static: "same_static st0 ?st"
    by (simp add: run_store same_static_after same_static_refl)
  have "handleTasks F ?st (tasks fl) = Inr ms"
    using handleTasks_same_static [OF static] ms by simp
  then have inner: "concat (map (run_message F ?st ?q) ms) = preorder_tasks F ?st ?q (tasks fl)"
    by (rule run_handleTasks_all)
  have "flush_lines F ?f res (run F ev (st0, p1)) =
          concat (map (run_message F ?st ?q)
            ([Literal (suite_started F ?f ?n)] @ ms @ [Literal (suite_finished F ?f ?n)]))"
    using pending fin by (simp add: flush_lines_def handeUpdate_def)
  also have "\<dots> = [suite_started F ?f ?n] @ preorder_tasks F ?st ?q (tasks fl)
                   @ [suite_finished F ?f ?n]"
    using inner by simp
  also have "\<dots> = preorder_file F ?st ?q fl"
    using same_static_fields [OF static] by (simp add: preorder_file_def)
  finally show ?thesis .
qed

text \<open>
  C3. After the registration of a file, let two runs of state changes and console logs
  have the same state changes in the same order and the same console logs in the same
  order, interleaved in any way, and let neither contain the terminal notification of
  the file. Then the lines that the terminal notification hands to the logger are, in
  each run, the pre-order traversal of the file's tree (the file's started line, every
  task in declared order, a suite in run mode as its started line, its children and its
  finished line, the file's finished line), rendered from the results and the console
  logs that the run has left; and they are the same lines in both runs.
\<close>

theorem emission_order:
  assumes reg: "addFile F st0 fl p0 = Inr p1"
    and quiet_a: "quiet_for (task_id (st0 (ref_of fl))) ev1"
    and quiet_b: "quiet_for (task_id (st0 (ref_of fl))) ev2"
    and logs: "filter is_log ev1 = filter is_log ev2"
    and changes: "filter (\<lambda>e. \<not> is_log e) ev1 = filter (\<lambda>e. \<not> is_log e) ev2"
    and fin: "state res \<noteq> ''run''"
  shows "flush_lines F (task_id (st0 (ref_of fl))) res (run F ev1 (st0, p1))
           = preorder_file F (fst (run F ev1 (st0, p1))) (snd (run F ev1 (st0, p1))) fl
       \<and> flush_lines F (task_id (st0 (ref_of fl))) res (run F ev2 (st0, p1))
           = preorder_file F (fst (run F ev2 (st0, p1))) (snd (run F ev2 (st0, p1))) fl
       \<and> flush_lines F (task_id (st0 (ref_of fl))) res (run F ev2 (st0, p1))
           = flush_lines F (task_id (st0 (ref_of fl))) res (run F ev1 (st0, p1))"
proof -
  have "store_after ev1 st0 = store_after ev2 st0"
    using changes store_after_changes [of ev1 st0] store_after_changes [of ev2 st0] by simp
  then have st: "fst (run F ev1 (st0, p1)) = fst (run F ev2 (st0, p1))"
    by (simp add: run_store)
  have "logs_after ev1 (testConsoleMap p1) = logs_after ev2 (testConsoleMap p1)"
    using logs logs_after_logs [of ev1 "testConsoleMap p1"]
      logs_after_logs [of ev2 "testConsoleMap p1"] by simp
  then have "testConsoleMap (snd (run F ev1 (st0, p1)))
               = testConsoleMap (snd (run F ev2 (st0, p1)))"
    by (simp add: run_logs)
  then have "preorder_file F (fst (run F ev1 (st0, p1))) (snd (run F ev1 (st0, p1))) fl
           = preorder_file F (fst (run F ev1 (st0, p1))) (snd (run F ev2 (st0, p1))) fl"
    by (rule preorder_file_logs)
  then have same: "preorder_file F (fst (run F ev1 (st0, p1))) (snd (run F ev1 (st0, p1))) fl
                 = preorder_file F (fst (run F ev2 (st0, p1))) (snd (run F ev2 (st0, p1))) fl"
    by (simp only: st)
  note a = flush_is_preorder [OF reg quiet_a fin]
  note b = flush_is_preorder [OF reg quiet_b fin]
  from a b same show ?thesis by simp
qed

theorem emission_order_witness:
  "addFile tc ex_store ex_file new_printer = Inr listed
   \<and> quiet_for ''f1'' run_a \<and> quiet_for ''f1'' run_b
   \<and> filter is_log run_a = filter is_log run_b
   \<and> filter (\<lambda>e. \<not> is_log e) run_a = filter (\<lambda>e. \<not> is_log e) run_b
   \<and> run_a \<noteq> run_b
   \<and> state passed \<noteq> ''run''
   \<and> flush_lines tc ''f1'' passed (run tc run_b (ex_store, listed))
       = flush_lines tc ''f1'' passed (run tc run_a (ex_store, listed))
   \<and> flush_lines tc ''f1'' passed (run tc run_a (ex_store, listed))
       = preorder_file tc (fst (run tc run_a (ex_store, listed)))
           (snd (run tc run_a (ex_store, listed))) ex_file
   \<and> flush_lines tc ''f1'' passed (run tc run_a (ex_store, listed))
       = [''testSuiteStarted a.test.ts'', ''testSuiteStarted outer'',
          ''testStarted'', ''testStdOut hello'', ''testFinished'',
          ''testIgnored'',
          ''testStarted'', ''testStdOut hello'', ''testFinished'',
          ''testStarted'', ''testFinished'',
          ''testStarted'', ''testFailed hook failed'', ''testFinished'',
          ''testSuiteFinished outer'',
          ''testSuiteStarted empty'', ''testSuiteFinished empty'',
          ''testSuiteFinished a.test.ts'']"
proof -
  have fid: "task_id (ex_store (ref_of ex_file)) = ''f1''"
    by (simp add: ex_file_def ex_objects file_f1_def)
  have qa: "quiet_for ''f1'' run_a" and qb: "quiet_for ''f1'' run_b"
    by (simp_all add: run_a_def run_b_def)
  have l: "filter is_log run_a = filter is_log run_b"
    and c: "filter (\<lambda>e. \<not> is_log e) run_a = filter (\<lambda>e. \<not> is_log e) run_b"
    and d: "run_a \<noteq> run_b"
    by (simp_all add: run_a_def run_b_def)
  have s: "state passed \<noteq> ''run''"
    by (simp add: passed_def)
  have ra: "run tc run_a (ex_store, listed) =
              (ex_store(4 := (ex_store 4)\<lparr>result := Some passed\<rparr>),
               listed\<lparr>testConsoleMap := [''t3'' \<mapsto> [hello], ''t1'' \<mapsto> [hello]]\<rparr>)"
    by (simp add: run_a_def handeUpdate_def addTestConsoleLog_def listed_def)
  have lines: "flush_lines tc ''f1'' passed (run tc run_a (ex_store, listed))
       = [''testSuiteStarted a.test.ts'', ''testSuiteStarted outer'',
          ''testStarted'', ''testStdOut hello'', ''testFinished'',
          ''testIgnored'',
          ''testStarted'', ''testStdOut hello'', ''testFinished'',
          ''testStarted'', ''testFinished'',
          ''testStarted'', ''testFailed hook failed'', ''testFinished'',
          ''testSuiteFinished outer'',
          ''testSuiteStarted empty'', ''testSuiteFinished empty'',
          ''testSuiteFinished a.test.ts'']"
    unfolding ra
    by (simp add: flush_lines_def listed_def printer_defs ex_objects object_defs tc_lines)
  from emission_order
         [where F = tc and ?st0.0 = ex_store and fl = ex_file and ?p0.0 = new_printer
            and ?p1.0 = listed and ?ev1.0 = run_a and ?ev2.0 = run_b and res = passed,
          unfolded fid, OF addFile_listed qa qb l c s]
  have "flush_lines tc ''f1'' passed (run tc run_b (ex_store, listed))
          = flush_lines tc ''f1'' passed (run tc run_a (ex_store, listed))"
    and "flush_lines tc ''f1'' passed (run tc run_a (ex_store, listed))
          = preorder_file tc (fst (run tc run_a (ex_store, listed)))
              (snd (run tc run_a (ex_store, listed))) ex_file"
    by blast+
  with addFile_listed qa qb l c d s lines show ?thesis
    by blast
qed

end
